theory Spec2Isabelle
  imports Complex_Main
begin

section \<open>Data model\<close>

text \<open>
  The camera controller of \<^verbatim>\<open>rcamera.h\<close> works on the structs of \<^verbatim>\<open>raylib.h\<close>.
  A C \<^verbatim>\<open>float\<close> is modelled as a real number: every definition computes in exact
  arithmetic what the program computes with a rounding after each operation. The
  theorems state which fields a function writes, which calls it makes, with which
  arguments, and to which bounds it clamps. They do not state the distance or the angle
  that is measured after a move: far from the origin the rounding of one addition to a
  coordinate can exceed the 0.001 of the clamps.
  The fields \<^verbatim>\<open>x\<close>, \<^verbatim>\<open>y\<close>, \<^verbatim>\<open>z\<close> of a vector carry the prefix of their struct, since
  a record field is a constant of the whole theory.
\<close>

record Vector2 =
  v2x :: real
  v2y :: real

record Vector3 =
  v3x :: real
  v3y :: real
  v3z :: real

record Matrix =
  m0 :: real   m4 :: real   m8 :: real    m12 :: real
  m1 :: real   m5 :: real   m9 :: real    m13 :: real
  m2 :: real   m6 :: real   m10 :: real   m14 :: real
  m3 :: real   m7 :: real   m11 :: real   m15 :: real

record Camera =
  position :: Vector3
  target :: Vector3
  up :: Vector3
  fovy :: real
  projection :: int

text \<open>The camera modes of \<^verbatim>\<open>rl_CameraMode\<close>; \<^verbatim>\<open>rl_UpdateCamera\<close> takes the mode as an \<^verbatim>\<open>int\<close>.\<close>

definition CAMERA_CUSTOM :: int where "CAMERA_CUSTOM = 0"
definition CAMERA_FREE :: int where "CAMERA_FREE = 1"
definition CAMERA_ORBITAL :: int where "CAMERA_ORBITAL = 2"
definition CAMERA_FIRST_PERSON :: int where "CAMERA_FIRST_PERSON = 3"
definition CAMERA_THIRD_PERSON :: int where "CAMERA_THIRD_PERSON = 4"

text \<open>Keys, buttons and gamepad axes, with the values of the enums in \<^verbatim>\<open>raylib.h\<close>.\<close>

definition KEY_SPACE :: int where "KEY_SPACE = 32"
definition KEY_A :: int where "KEY_A = 65"
definition KEY_D :: int where "KEY_D = 68"
definition KEY_E :: int where "KEY_E = 69"
definition KEY_Q :: int where "KEY_Q = 81"
definition KEY_S :: int where "KEY_S = 83"
definition KEY_W :: int where "KEY_W = 87"
definition KEY_RIGHT :: int where "KEY_RIGHT = 262"
definition KEY_LEFT :: int where "KEY_LEFT = 263"
definition KEY_DOWN :: int where "KEY_DOWN = 264"
definition KEY_UP :: int where "KEY_UP = 265"
definition KEY_KP_SUBTRACT :: int where "KEY_KP_SUBTRACT = 333"
definition KEY_KP_ADD :: int where "KEY_KP_ADD = 334"
definition KEY_LEFT_CONTROL :: int where "KEY_LEFT_CONTROL = 341"
definition MOUSE_BUTTON_MIDDLE :: int where "MOUSE_BUTTON_MIDDLE = 2"
definition GAMEPAD_AXIS_LEFT_X :: int where "GAMEPAD_AXIS_LEFT_X = 0"
definition GAMEPAD_AXIS_LEFT_Y :: int where "GAMEPAD_AXIS_LEFT_Y = 1"
definition GAMEPAD_AXIS_RIGHT_X :: int where "GAMEPAD_AXIS_RIGHT_X = 2"
definition GAMEPAD_AXIS_RIGHT_Y :: int where "GAMEPAD_AXIS_RIGHT_Y = 3"

text \<open>
  The state of the input devices that \<^verbatim>\<open>rl_UpdateCamera\<close> queries through the functions
  of the core module, one field for each function it calls. The functions are outside the
  camera controller; a field holds what the function returns during one update.
\<close>

record Input =
  rl_GetMouseDelta :: Vector2
  rl_GetFrameTime :: real
  rl_GetMouseWheelMove :: real
  rl_IsKeyDown :: "int \<Rightarrow> bool"
  rl_IsKeyPressed :: "int \<Rightarrow> bool"
  rl_IsMouseButtonDown :: "int \<Rightarrow> bool"
  rl_IsGamepadAvailable :: "int \<Rightarrow> bool"
  rl_GetGamepadAxisMovement :: "int \<Rightarrow> int \<Rightarrow> real"

definition rl_DEG2RAD :: real where
  "rl_DEG2RAD = pi / 180"

definition CAMERA_MOVE_SPEED :: real where "CAMERA_MOVE_SPEED = 54 / 10"
definition CAMERA_ROTATION_SPEED :: real where "CAMERA_ROTATION_SPEED = 3 / 100"
definition CAMERA_PAN_SPEED :: real where "CAMERA_PAN_SPEED = 2 / 10"
definition CAMERA_MOUSE_MOVE_SENSITIVITY :: real where "CAMERA_MOUSE_MOVE_SENSITIVITY = 3 / 1000"
definition CAMERA_ORBITAL_SPEED :: real where "CAMERA_ORBITAL_SPEED = 5 / 10"

section \<open>Vector and matrix primitives\<close>

text \<open>
  The file \<^verbatim>\<open>raymath.h\<close>, which \<^verbatim>\<open>rcamera.h\<close> includes for its vector mathematics, is not
  among the sources. Each of its functions that the camera controller calls is modelled
  here from section 4.1 of the specification, under the name the controller calls it by.
\<close>

text \<open>Modelled from the spec: \<^verbatim>\<open>Vector3Add\<close> of \<^verbatim>\<open>raymath.h\<close>, the sum of two vectors ("add").\<close>

definition Vector3Add :: "Vector3 \<Rightarrow> Vector3 \<Rightarrow> Vector3" where
  "Vector3Add v1 v2 = \<lparr>v3x = v3x v1 + v3x v2, v3y = v3y v1 + v3y v2, v3z = v3z v1 + v3z v2\<rparr>"

text \<open>
  Modelled from the spec: \<^verbatim>\<open>Vector3Subtract\<close> of \<^verbatim>\<open>raymath.h\<close>, the difference of two vectors
  ("subtract").
\<close>

definition Vector3Subtract :: "Vector3 \<Rightarrow> Vector3 \<Rightarrow> Vector3" where
  "Vector3Subtract v1 v2 = \<lparr>v3x = v3x v1 - v3x v2, v3y = v3y v1 - v3y v2, v3z = v3z v1 - v3z v2\<rparr>"

text \<open>
  Modelled from the spec: \<^verbatim>\<open>Vector3Scale\<close> of \<^verbatim>\<open>raymath.h\<close>, a vector multiplied by a scalar
  ("scale").
\<close>

definition Vector3Scale :: "Vector3 \<Rightarrow> real \<Rightarrow> Vector3" where
  "Vector3Scale v scalar = \<lparr>v3x = v3x v * scalar, v3y = v3y v * scalar, v3z = v3z v * scalar\<rparr>"

text \<open>Modelled from the spec: \<^verbatim>\<open>Vector3Negate\<close> of \<^verbatim>\<open>raymath.h\<close>, the opposite vector ("negate").\<close>

definition Vector3Negate :: "Vector3 \<Rightarrow> Vector3" where
  "Vector3Negate v = \<lparr>v3x = - v3x v, v3y = - v3y v, v3z = - v3z v\<rparr>"

text \<open>
  Modelled from the spec: \<^verbatim>\<open>Vector3CrossProduct\<close> of \<^verbatim>\<open>raymath.h\<close>, the cross product of two
  vectors in a right-handed system ("cross product").
\<close>

definition Vector3CrossProduct :: "Vector3 \<Rightarrow> Vector3 \<Rightarrow> Vector3" where
  "Vector3CrossProduct v1 v2 =
     \<lparr>v3x = v3y v1 * v3z v2 - v3z v1 * v3y v2,
      v3y = v3z v1 * v3x v2 - v3x v1 * v3z v2,
      v3z = v3x v1 * v3y v2 - v3y v1 * v3x v2\<rparr>"

text \<open>
  Modelled from the spec: \<^verbatim>\<open>Vector3DotProduct\<close> of \<^verbatim>\<open>raymath.h\<close>, the dot product, which the
  angle between two vectors is computed from.
\<close>

definition Vector3DotProduct :: "Vector3 \<Rightarrow> Vector3 \<Rightarrow> real" where
  "Vector3DotProduct v1 v2 = v3x v1 * v3x v2 + v3y v1 * v3y v2 + v3z v1 * v3z v2"

text \<open>
  Modelled from the spec: \<^verbatim>\<open>Vector3Length\<close> of \<^verbatim>\<open>raymath.h\<close>, the Euclidean length, which
  normalize and the angle are computed from.
\<close>

definition Vector3Length :: "Vector3 \<Rightarrow> real" where
  "Vector3Length v = sqrt (v3x v * v3x v + v3y v * v3y v + v3z v * v3z v)"

text \<open>
  Modelled from the spec: \<^verbatim>\<open>Vector3Distance\<close> of \<^verbatim>\<open>raymath.h\<close>, the Euclidean distance
  ("distance between two points").
\<close>

definition Vector3Distance :: "Vector3 \<Rightarrow> Vector3 \<Rightarrow> real" where
  "Vector3Distance v1 v2 =
     (let dx = v3x v2 - v3x v1; dy = v3y v2 - v3y v1; dz = v3z v2 - v3z v1
      in sqrt (dx * dx + dy * dy + dz * dz))"

text \<open>
  Modelled from the spec: \<^verbatim>\<open>Vector3Normalize\<close> of \<^verbatim>\<open>raymath.h\<close> ("normalize (zero-vector
  input yields an implementation-defined safe zero result)"): a vector is divided by its
  length, and a vector of length zero is returned as it is.
\<close>

definition Vector3Normalize :: "Vector3 \<Rightarrow> Vector3" where
  "Vector3Normalize v =
     (let length = Vector3Length v
      in if length \<noteq> 0 then Vector3Scale v (1 / length) else v)"

text \<open>
  Modelled from the spec: \<^verbatim>\<open>atan2f\<close> of the C library, the two-argument arctangent that
  the angle between two vectors is computed with: the angle of the point \<open>(x, y)\<close>, in the
  range from \<open>- \<pi>\<close> to \<open>\<pi>\<close>, and 0 at the origin.
\<close>

definition atan2f :: "real \<Rightarrow> real \<Rightarrow> real" where
  "atan2f y x =
     (if 0 < x then arctan (y / x)
      else if x < 0 then (if 0 \<le> y then arctan (y / x) + pi else arctan (y / x) - pi)
      else if 0 < y then pi / 2
      else if y < 0 then - (pi / 2)
      else 0)"

text \<open>
  Modelled from the spec: \<^verbatim>\<open>Vector3Angle\<close> of \<^verbatim>\<open>raymath.h\<close> ("angle between two vectors
  (radians, range [0, \<open>\<pi>\<close>])"): the two-argument arctangent of the length of the cross
  product and the dot product. The angle of a zero vector to any vector is 0.
\<close>

definition Vector3Angle :: "Vector3 \<Rightarrow> Vector3 \<Rightarrow> real" where
  "Vector3Angle v1 v2 =
     atan2f (Vector3Length (Vector3CrossProduct v1 v2)) (Vector3DotProduct v1 v2)"

text \<open>
  Modelled from the spec: \<^verbatim>\<open>Vector3RotateByAxisAngle\<close> of \<^verbatim>\<open>raymath.h\<close> ("rotate-by-axis-angle
  (Rodrigues' rotation formula)"), in the form of Euler and Rodrigues: with \<open>w\<close> the
  normalized axis scaled by the sine of half the angle, the result is
  \<open>v + 2 cos (angle / 2) (w \<times> v) + 2 (w \<times> (w \<times> v))\<close>. About an axis of length zero
  nothing moves.
\<close>

definition Vector3RotateByAxisAngle :: "Vector3 \<Rightarrow> Vector3 \<Rightarrow> real \<Rightarrow> Vector3" where
  "Vector3RotateByAxisAngle v axis angle =
     (let axis = Vector3Normalize axis;
          angle = angle / 2;
          w = Vector3Scale axis (sin angle);
          wv = Vector3CrossProduct w v;
          wwv = Vector3CrossProduct w wv;
          wv = Vector3Scale wv (2 * cos angle);
          wwv = Vector3Scale wwv 2
      in Vector3Add (Vector3Add v wv) wwv)"

text \<open>
  Modelled from the spec: \<^verbatim>\<open>MatrixRotate\<close> of \<^verbatim>\<open>raymath.h\<close> ("arbitrary-axis rotation
  matrix"), column-major and right-handed, about the normalized axis.
\<close>

definition MatrixRotate :: "Vector3 \<Rightarrow> real \<Rightarrow> Matrix" where
  "MatrixRotate axis angle =
     (let a = Vector3Normalize axis;
          x = v3x a; y = v3y a; z = v3z a;
          sinres = sin angle; cosres = cos angle; t = 1 - cosres
      in \<lparr>m0 = x * x * t + cosres, m4 = x * y * t - z * sinres,
          m8 = x * z * t + y * sinres, m12 = 0,
          m1 = y * x * t + z * sinres, m5 = y * y * t + cosres,
          m9 = y * z * t - x * sinres, m13 = 0,
          m2 = z * x * t - y * sinres, m6 = z * y * t + x * sinres,
          m10 = z * z * t + cosres, m14 = 0,
          m3 = 0, m7 = 0, m11 = 0, m15 = 1\<rparr>)"

text \<open>
  Modelled from the spec: \<^verbatim>\<open>Vector3Transform\<close> of \<^verbatim>\<open>raymath.h\<close> ("matrix-vector transform"):
  the matrix applied to the vector as a point, translation column included.
\<close>

definition Vector3Transform :: "Vector3 \<Rightarrow> Matrix \<Rightarrow> Vector3" where
  "Vector3Transform v mat =
     \<lparr>v3x = m0 mat * v3x v + m4 mat * v3y v + m8 mat * v3z v + m12 mat,
      v3y = m1 mat * v3x v + m5 mat * v3y v + m9 mat * v3z v + m13 mat,
      v3z = m2 mat * v3x v + m6 mat * v3y v + m10 mat * v3z v + m14 mat\<rparr>"

section \<open>The camera controller\<close>

text \<open>
  The functions of \<^verbatim>\<open>rcamera.h\<close>. Each takes a pointer to the camera and writes to its
  fields; here each takes the camera and returns the camera it leaves behind.
\<close>

definition GetCameraForward :: "Camera \<Rightarrow> Vector3" where
  "GetCameraForward camera = Vector3Normalize (Vector3Subtract (target camera) (position camera))"

definition GetCameraUp :: "Camera \<Rightarrow> Vector3" where
  "GetCameraUp camera = Vector3Normalize (up camera)"

definition GetCameraRight :: "Camera \<Rightarrow> Vector3" where
  "GetCameraRight camera =
     (let forward = GetCameraForward camera;
          up = GetCameraUp camera
      in Vector3Normalize (Vector3CrossProduct forward up))"

text \<open>
  The projection of a movement vector onto the world plane, the block that
  \<^verbatim>\<open>CameraMoveForward\<close> and \<^verbatim>\<open>CameraMoveRight\<close> both run when \<^verbatim>\<open>moveInWorldPlane\<close> is set:
  it tests the stored up vector, first its z, then its x component.
\<close>

definition projectOntoWorldPlane :: "Camera \<Rightarrow> Vector3 \<Rightarrow> Vector3" where
  "projectOntoWorldPlane camera v =
     (let v = (if \<bar>v3z (up camera)\<bar> > 7071 / 10000 then v\<lparr>v3z := 0\<rparr>
               else if \<bar>v3x (up camera)\<bar> > 7071 / 10000 then v\<lparr>v3x := 0\<rparr>
               else v\<lparr>v3y := 0\<rparr>)
      in Vector3Normalize v)"

definition CameraMoveForward :: "Camera \<Rightarrow> real \<Rightarrow> bool \<Rightarrow> Camera" where
  "CameraMoveForward camera distance moveInWorldPlane =
     (let forward = GetCameraForward camera;
          forward = (if moveInWorldPlane then projectOntoWorldPlane camera forward else forward);
          forward = Vector3Scale forward distance
      in camera\<lparr>position := Vector3Add (position camera) forward,
                target := Vector3Add (target camera) forward\<rparr>)"

definition CameraMoveUp :: "Camera \<Rightarrow> real \<Rightarrow> Camera" where
  "CameraMoveUp camera distance =
     (let up = GetCameraUp camera;
          up = Vector3Scale up distance
      in camera\<lparr>position := Vector3Add (position camera) up,
                target := Vector3Add (target camera) up\<rparr>)"

definition CameraMoveRight :: "Camera \<Rightarrow> real \<Rightarrow> bool \<Rightarrow> Camera" where
  "CameraMoveRight camera distance moveInWorldPlane =
     (let right = GetCameraRight camera;
          right = (if moveInWorldPlane then projectOntoWorldPlane camera right else right);
          right = Vector3Scale right distance
      in camera\<lparr>position := Vector3Add (position camera) right,
                target := Vector3Add (target camera) right\<rparr>)"

definition CameraMoveToTarget :: "Camera \<Rightarrow> real \<Rightarrow> Camera" where
  "CameraMoveToTarget camera delta =
     (let distance = Vector3Distance (position camera) (target camera);
          distance = distance + delta;
          distance = (if distance \<le> 0 then 1 / 1000 else distance);
          forward = GetCameraForward camera
      in camera\<lparr>position := Vector3Add (target camera) (Vector3Scale forward (- distance))\<rparr>)"

definition CameraYaw :: "Camera \<Rightarrow> real \<Rightarrow> bool \<Rightarrow> Camera" where
  "CameraYaw camera angle rotateAroundTarget =
     (let up = GetCameraUp camera;
          targetPosition = Vector3Subtract (target camera) (position camera);
          targetPosition = Vector3RotateByAxisAngle targetPosition up angle
      in if rotateAroundTarget
         then camera\<lparr>position := Vector3Subtract (target camera) targetPosition\<rparr>
         else camera\<lparr>target := Vector3Add (position camera) targetPosition\<rparr>)"

text \<open>
  The two bounds of the pitch angle and the clamp of \<^verbatim>\<open>CameraPitch\<close> under \<^verbatim>\<open>lockView\<close>:
  the angle is first cut down to the upper bound, then raised to the lower one.
\<close>

definition maxAngleUp :: "Camera \<Rightarrow> real" where
  "maxAngleUp camera =
     Vector3Angle (GetCameraUp camera) (Vector3Subtract (target camera) (position camera))
       - 1 / 1000"

definition maxAngleDown :: "Camera \<Rightarrow> real" where
  "maxAngleDown camera =
     Vector3Angle (Vector3Negate (GetCameraUp camera))
         (Vector3Subtract (target camera) (position camera)) * (- 1)
       + 1 / 1000"

definition lockViewAngle :: "Camera \<Rightarrow> real \<Rightarrow> real" where
  "lockViewAngle camera angle =
     (let angle = (if angle > maxAngleUp camera then maxAngleUp camera else angle);
          angle = (if angle < maxAngleDown camera then maxAngleDown camera else angle)
      in angle)"

definition CameraPitch :: "Camera \<Rightarrow> real \<Rightarrow> bool \<Rightarrow> bool \<Rightarrow> bool \<Rightarrow> Camera" where
  "CameraPitch camera angle lockView rotateAroundTarget rotateUp =
     (let targetPosition = Vector3Subtract (target camera) (position camera);
          angle = (if lockView then lockViewAngle camera angle else angle);
          right = GetCameraRight camera;
          targetPosition = Vector3RotateByAxisAngle targetPosition right angle;
          camera = (if rotateAroundTarget
                    then camera\<lparr>position := Vector3Subtract (target camera) targetPosition\<rparr>
                    else camera\<lparr>target := Vector3Add (position camera) targetPosition\<rparr>)
      in if rotateUp
         then camera\<lparr>up := Vector3RotateByAxisAngle (up camera) right angle\<rparr>
         else camera)"

definition CameraRoll :: "Camera \<Rightarrow> real \<Rightarrow> Camera" where
  "CameraRoll camera angle =
     (let forward = GetCameraForward camera
      in camera\<lparr>up := Vector3RotateByAxisAngle (up camera) forward angle\<rparr>)"

text \<open>A call under a condition, \<^verbatim>\<open>if (c) f(camera, ...);\<close>, leaves the camera alone otherwise.\<close>

definition on :: "bool \<Rightarrow> (Camera \<Rightarrow> Camera) \<Rightarrow> Camera \<Rightarrow> Camera" where
  "on c f camera = (if c then f camera else camera)"

definition rl_UpdateCamera :: "Input \<Rightarrow> Camera \<Rightarrow> int \<Rightarrow> Camera" where
  "rl_UpdateCamera inp camera mode =
     (let mousePositionDelta = rl_GetMouseDelta inp;
          moveInWorldPlane = (mode = CAMERA_FIRST_PERSON \<or> mode = CAMERA_THIRD_PERSON);
          rotateAroundTarget = (mode = CAMERA_THIRD_PERSON \<or> mode = CAMERA_ORBITAL);
          lockView = (mode = CAMERA_FREE \<or> mode = CAMERA_FIRST_PERSON
                      \<or> mode = CAMERA_THIRD_PERSON \<or> mode = CAMERA_ORBITAL);
          rotateUp = False;
          cameraMoveSpeed = CAMERA_MOVE_SPEED * rl_GetFrameTime inp;
          cameraRotationSpeed = CAMERA_ROTATION_SPEED * rl_GetFrameTime inp;
          cameraPanSpeed = CAMERA_PAN_SPEED * rl_GetFrameTime inp;
          cameraOrbitalSpeed = CAMERA_ORBITAL_SPEED * rl_GetFrameTime inp;
          camera =
            (if mode = CAMERA_CUSTOM then camera
             else if mode = CAMERA_ORBITAL then
               (let rotation = MatrixRotate (GetCameraUp camera) cameraOrbitalSpeed;
                    view = Vector3Subtract (position camera) (target camera);
                    view = Vector3Transform view rotation
                in camera\<lparr>position := Vector3Add (target camera) view\<rparr>)
             else
               (let camera = on (rl_IsKeyDown inp KEY_DOWN)
                      (\<lambda>c. CameraPitch c (- cameraRotationSpeed) lockView rotateAroundTarget rotateUp) camera;
                    camera = on (rl_IsKeyDown inp KEY_UP)
                      (\<lambda>c. CameraPitch c cameraRotationSpeed lockView rotateAroundTarget rotateUp) camera;
                    camera = on (rl_IsKeyDown inp KEY_RIGHT)
                      (\<lambda>c. CameraYaw c (- cameraRotationSpeed) rotateAroundTarget) camera;
                    camera = on (rl_IsKeyDown inp KEY_LEFT)
                      (\<lambda>c. CameraYaw c cameraRotationSpeed rotateAroundTarget) camera;
                    camera = on (rl_IsKeyDown inp KEY_Q)
                      (\<lambda>c. CameraRoll c (- cameraRotationSpeed)) camera;
                    camera = on (rl_IsKeyDown inp KEY_E)
                      (\<lambda>c. CameraRoll c cameraRotationSpeed) camera;
                    camera =
                      (if mode = CAMERA_FREE \<and> rl_IsMouseButtonDown inp MOUSE_BUTTON_MIDDLE then
                         (let mouseDelta = rl_GetMouseDelta inp;
                              camera = on (v2x mouseDelta > 0)
                                (\<lambda>c. CameraMoveRight c cameraPanSpeed moveInWorldPlane) camera;
                              camera = on (v2x mouseDelta < 0)
                                (\<lambda>c. CameraMoveRight c (- cameraPanSpeed) moveInWorldPlane) camera;
                              camera = on (v2y mouseDelta > 0)
                                (\<lambda>c. CameraMoveUp c (- cameraPanSpeed)) camera;
                              camera = on (v2y mouseDelta < 0)
                                (\<lambda>c. CameraMoveUp c cameraPanSpeed) camera
                          in camera)
                       else
                         (let camera = CameraYaw camera
                                (- v2x mousePositionDelta * CAMERA_MOUSE_MOVE_SENSITIVITY)
                                rotateAroundTarget;
                              camera = CameraPitch camera
                                (- v2y mousePositionDelta * CAMERA_MOUSE_MOVE_SENSITIVITY)
                                lockView rotateAroundTarget rotateUp
                          in camera));
                    camera = on (rl_IsKeyDown inp KEY_W)
                      (\<lambda>c. CameraMoveForward c cameraMoveSpeed moveInWorldPlane) camera;
                    camera = on (rl_IsKeyDown inp KEY_A)
                      (\<lambda>c. CameraMoveRight c (- cameraMoveSpeed) moveInWorldPlane) camera;
                    camera = on (rl_IsKeyDown inp KEY_S)
                      (\<lambda>c. CameraMoveForward c (- cameraMoveSpeed) moveInWorldPlane) camera;
                    camera = on (rl_IsKeyDown inp KEY_D)
                      (\<lambda>c. CameraMoveRight c cameraMoveSpeed moveInWorldPlane) camera;
                    camera =
                      (if rl_IsGamepadAvailable inp 0 then
                         (let camera = CameraYaw camera
                                (- (rl_GetGamepadAxisMovement inp 0 GAMEPAD_AXIS_RIGHT_X * 2)
                                   * CAMERA_MOUSE_MOVE_SENSITIVITY) rotateAroundTarget;
                              camera = CameraPitch camera
                                (- (rl_GetGamepadAxisMovement inp 0 GAMEPAD_AXIS_RIGHT_Y * 2)
                                   * CAMERA_MOUSE_MOVE_SENSITIVITY)
                                lockView rotateAroundTarget rotateUp;
                              camera = on (rl_GetGamepadAxisMovement inp 0 GAMEPAD_AXIS_LEFT_Y \<le> - (1 / 4))
                                (\<lambda>c. CameraMoveForward c cameraMoveSpeed moveInWorldPlane) camera;
                              camera = on (rl_GetGamepadAxisMovement inp 0 GAMEPAD_AXIS_LEFT_X \<le> - (1 / 4))
                                (\<lambda>c. CameraMoveRight c (- cameraMoveSpeed) moveInWorldPlane) camera;
                              camera = on (rl_GetGamepadAxisMovement inp 0 GAMEPAD_AXIS_LEFT_Y \<ge> 1 / 4)
                                (\<lambda>c. CameraMoveForward c (- cameraMoveSpeed) moveInWorldPlane) camera;
                              camera = on (rl_GetGamepadAxisMovement inp 0 GAMEPAD_AXIS_LEFT_X \<ge> 1 / 4)
                                (\<lambda>c. CameraMoveRight c cameraMoveSpeed moveInWorldPlane) camera
                          in camera)
                       else camera);
                    camera =
                      (if mode = CAMERA_FREE then
                         (let camera = on (rl_IsKeyDown inp KEY_SPACE)
                                (\<lambda>c. CameraMoveUp c cameraMoveSpeed) camera;
                              camera = on (rl_IsKeyDown inp KEY_LEFT_CONTROL)
                                (\<lambda>c. CameraMoveUp c (- cameraMoveSpeed)) camera
                          in camera)
                       else camera)
                in camera));
          camera =
            (if mode = CAMERA_THIRD_PERSON \<or> mode = CAMERA_ORBITAL \<or> mode = CAMERA_FREE then
               (let camera = CameraMoveToTarget camera (- rl_GetMouseWheelMove inp);
                    camera = on (rl_IsKeyPressed inp KEY_KP_SUBTRACT)
                      (\<lambda>c. CameraMoveToTarget c 2) camera;
                    camera = on (rl_IsKeyPressed inp KEY_KP_ADD)
                      (\<lambda>c. CameraMoveToTarget c (- 2)) camera
                in camera)
             else camera)
      in camera)"

definition rl_UpdateCameraPro :: "Camera \<Rightarrow> Vector3 \<Rightarrow> Vector3 \<Rightarrow> real \<Rightarrow> Camera" where
  "rl_UpdateCameraPro camera movement rotation zoom =
     (let lockView = True;
          rotateAroundTarget = False;
          rotateUp = False;
          moveInWorldPlane = True;
          camera = CameraPitch camera (- v3y rotation * rl_DEG2RAD) lockView rotateAroundTarget rotateUp;
          camera = CameraYaw camera (- v3x rotation * rl_DEG2RAD) rotateAroundTarget;
          camera = CameraRoll camera (v3z rotation * rl_DEG2RAD);
          camera = CameraMoveForward camera (v3x movement) moveInWorldPlane;
          camera = CameraMoveRight camera (v3y movement) moveInWorldPlane;
          camera = CameraMoveUp camera (v3z movement);
          camera = CameraMoveToTarget camera zoom
      in camera)"


section \<open>Cameras of the scenarios\<close>

definition CAMERA_PERSPECTIVE :: int where "CAMERA_PERSPECTIVE = 0"

text \<open>
  The camera of the scenarios of the specification: at (0,0,10), looking at the origin,
  with up (0,1,0), a field of view of 45 degrees and a perspective projection.
\<close>

definition scenarioCamera :: Camera where
  "scenarioCamera =
     \<lparr>position = \<lparr>v3x = 0, v3y = 0, v3z = 10\<rparr>,
      target = \<lparr>v3x = 0, v3y = 0, v3z = 0\<rparr>,
      up = \<lparr>v3x = 0, v3y = 1, v3z = 0\<rparr>,
      fovy = 45, projection = CAMERA_PERSPECTIVE\<rparr>"

section \<open>The world plane, in the words of the amended claim\<close>

text \<open>
  The axis whose component a movement in the world plane loses, as the amended claim C4
  words it: z when the absolute value of the z component of the stored up vector is above
  0.7071, else x when that of its x component is, else y. These definitions are not
  taken from the source; the theorem of C4 compares the source with them.
\<close>

datatype Axis = AxisX | AxisY | AxisZ

definition worldPlaneAxis :: "Vector3 \<Rightarrow> Axis" where
  "worldPlaneAxis u =
     (if \<bar>v3z u\<bar> > 7071 / 10000 then AxisZ
      else if \<bar>v3x u\<bar> > 7071 / 10000 then AxisX
      else AxisY)"

fun component :: "Axis \<Rightarrow> Vector3 \<Rightarrow> real" where
  "component AxisX v = v3x v"
| "component AxisY v = v3y v"
| "component AxisZ v = v3z v"

fun zeroComponent :: "Axis \<Rightarrow> Vector3 \<Rightarrow> Vector3" where
  "zeroComponent AxisX v = v\<lparr>v3x := 0\<rparr>"
| "zeroComponent AxisY v = v\<lparr>v3y := 0\<rparr>"
| "zeroComponent AxisZ v = v\<lparr>v3z := 0\<rparr>"

text \<open>A camera whose stored up vector is not of unit length and leans from y towards z.\<close>

definition tiltedCamera :: Camera where
  "tiltedCamera =
     \<lparr>position = \<lparr>v3x = 0, v3y = 0, v3z = 0\<rparr>,
      target = \<lparr>v3x = 3, v3y = 4, v3z = 0\<rparr>,
      up = \<lparr>v3x = 0, v3y = 2, v3z = 1\<rparr>,
      fovy = 45, projection = CAMERA_PERSPECTIVE\<rparr>"

text \<open>
  Two states of the input devices, one second after the last frame: nothing held or
  moved and no gamepad, and the same with the key W down.
\<close>

definition idleInput :: Input where
  "idleInput =
     \<lparr>rl_GetMouseDelta = \<lparr>v2x = 0, v2y = 0\<rparr>, rl_GetFrameTime = 1, rl_GetMouseWheelMove = 0,
      rl_IsKeyDown = (\<lambda>key. False), rl_IsKeyPressed = (\<lambda>key. False),
      rl_IsMouseButtonDown = (\<lambda>button. False), rl_IsGamepadAvailable = (\<lambda>gamepad. False),
      rl_GetGamepadAxisMovement = (\<lambda>gamepad axis. 0)\<rparr>"

definition keyW_Input :: Input where
  "keyW_Input = idleInput\<lparr>rl_IsKeyDown := (\<lambda>key. key = KEY_W)\<rparr>"

section \<open>Cameras at and near the pole\<close>

text \<open>
  A camera that looks straight up, along its up vector, and one that looks up at an angle
  of \<open>arctan (1 / 2000)\<close>, less than 0.001, from its up vector.
\<close>

definition poleCamera :: Camera where
  "poleCamera =
     \<lparr>position = \<lparr>v3x = 0, v3y = 0, v3z = 0\<rparr>,
      target = \<lparr>v3x = 0, v3y = 1, v3z = 0\<rparr>,
      up = \<lparr>v3x = 0, v3y = 1, v3z = 0\<rparr>,
      fovy = 45, projection = CAMERA_PERSPECTIVE\<rparr>"

definition nearPoleCamera :: Camera where
  "nearPoleCamera =
     \<lparr>position = \<lparr>v3x = 0, v3y = 0, v3z = 0\<rparr>,
      target = \<lparr>v3x = 0, v3y = 1, v3z = 1 / 2000\<rparr>,
      up = \<lparr>v3x = 0, v3y = 1, v3z = 0\<rparr>,
      fovy = 45, projection = CAMERA_PERSPECTIVE\<rparr>"

section \<open>Names of the constants\<close>

lemmas CameraMode_defs =
  CAMERA_CUSTOM_def CAMERA_FREE_def CAMERA_ORBITAL_def
  CAMERA_FIRST_PERSON_def CAMERA_THIRD_PERSON_def

lemmas Key_defs =
  KEY_SPACE_def KEY_A_def KEY_D_def KEY_E_def KEY_Q_def KEY_S_def KEY_W_def
  KEY_RIGHT_def KEY_LEFT_def KEY_DOWN_def KEY_UP_def KEY_KP_SUBTRACT_def KEY_KP_ADD_def
  KEY_LEFT_CONTROL_def MOUSE_BUTTON_MIDDLE_def GAMEPAD_AXIS_LEFT_X_def
  GAMEPAD_AXIS_LEFT_Y_def GAMEPAD_AXIS_RIGHT_X_def GAMEPAD_AXIS_RIGHT_Y_def

lemmas Speed_defs =
  CAMERA_MOVE_SPEED_def CAMERA_ROTATION_SPEED_def CAMERA_PAN_SPEED_def
  CAMERA_MOUSE_MOVE_SENSITIVITY_def CAMERA_ORBITAL_SPEED_def


section \<open>Vector algebra\<close>


lemma Vector3_eq_iff:
  "(a::Vector3) = b \<longleftrightarrow> v3x a = v3x b \<and> v3y a = v3y b \<and> v3z a = v3z b"
  by (cases a, cases b) simp

lemma Vector3Subtract_Add_Add [simp]:
  "Vector3Subtract (Vector3Add a v) (Vector3Add b v) = Vector3Subtract a b"
  by (simp add: Vector3_eq_iff Vector3Subtract_def Vector3Add_def)

lemma Vector3Add_Scale_back [simp]:
  "Vector3Add (Vector3Add a (Vector3Scale f d)) (Vector3Scale f (- d)) = a"
  by (simp add: Vector3_eq_iff Vector3Scale_def Vector3Add_def)

subsection \<open>Lengths and distances\<close>

lemma Vector3Length_nonneg [simp]: "0 \<le> Vector3Length v"
  by (simp add: Vector3Length_def)

lemma Vector3Length_eq_0_iff: "Vector3Length v = 0 \<longleftrightarrow> v = \<lparr>v3x = 0, v3y = 0, v3z = 0\<rparr>"
  by (cases v) (simp add: Vector3Length_def add_nonneg_eq_0_iff)

lemma Vector3Distance_Length: "Vector3Distance a b = Vector3Length (Vector3Subtract b a)"
  by (simp add: Vector3Distance_def Vector3Length_def Vector3Subtract_def Let_def)

lemma Vector3Subtract_eq_0_iff: "Vector3Subtract b a = \<lparr>v3x = 0, v3y = 0, v3z = 0\<rparr> \<longleftrightarrow> a = b"
  by (cases a, cases b) (auto simp add: Vector3Subtract_def)

lemma Vector3Distance_eq_0_iff: "Vector3Distance a b = 0 \<longleftrightarrow> a = b"
  by (simp add: Vector3Distance_Length Vector3Length_eq_0_iff Vector3Subtract_eq_0_iff)

lemma Vector3Length_Scale: "Vector3Length (Vector3Scale v s) = \<bar>s\<bar> * Vector3Length v"
proof -
  have "v3x v * s * (v3x v * s) + v3y v * s * (v3y v * s) + v3z v * s * (v3z v * s)
        = s\<^sup>2 * (v3x v * v3x v + v3y v * v3y v + v3z v * v3z v)"
    by (simp add: power2_eq_square algebra_simps)
  then show ?thesis
    by (simp add: Vector3Length_def Vector3Scale_def real_sqrt_mult)
qed

lemma Vector3Length_Normalize:
  "Vector3Length v \<noteq> 0 \<Longrightarrow> Vector3Length (Vector3Normalize v) = 1"
  by (simp add: Vector3Normalize_def Let_def Vector3Length_Scale)

lemma Vector3Normalize_zero_length:
  "Vector3Length v = 0 \<Longrightarrow> Vector3Normalize v = v"
  by (simp add: Vector3Normalize_def)

subsection \<open>Dot product and length\<close>

lemma Vector3DotProduct_self: "Vector3DotProduct v v = (Vector3Length v)\<^sup>2"
  by (simp add: Vector3DotProduct_def Vector3Length_def)

lemma Vector3Length_sqrt_Dot: "Vector3Length v = sqrt (Vector3DotProduct v v)"
  by (simp add: Vector3DotProduct_def Vector3Length_def)

lemma Vector3CrossProduct_zero_left:
  "Vector3Length w = 0 \<Longrightarrow> Vector3CrossProduct w v = \<lparr>v3x = 0, v3y = 0, v3z = 0\<rparr>"
  by (simp add: Vector3Length_eq_0_iff Vector3CrossProduct_def)

lemma Vector3Subtract_Subtract_cancel [simp]: "Vector3Subtract t (Vector3Subtract t r) = r"
  by (simp add: Vector3_eq_iff Vector3Subtract_def)

lemma Vector3Subtract_Add_cancel [simp]: "Vector3Subtract (Vector3Add p r) p = r"
  by (simp add: Vector3_eq_iff Vector3Subtract_def Vector3Add_def)

lemma Vector3Add_Subtract_cancel [simp]: "Vector3Add p (Vector3Subtract t p) = t"
  by (simp add: Vector3_eq_iff Vector3Subtract_def Vector3Add_def)

lemma Vector3Subtract_Add_Scale_neg [simp]:
  "Vector3Subtract t (Vector3Add t (Vector3Scale f (- d))) = Vector3Scale f d"
  by (simp add: Vector3_eq_iff Vector3Subtract_def Vector3Add_def Vector3Scale_def)

subsection \<open>The view vector after each operation\<close>

text \<open>The view vector goes from the position to the target.\<close>

lemma view_CameraPitch:
  "Vector3Subtract (target (CameraPitch camera a l r u)) (position (CameraPitch camera a l r u))
     = Vector3RotateByAxisAngle (Vector3Subtract (target camera) (position camera))
         (GetCameraRight camera) (if l then lockViewAngle camera a else a)"
  by (simp add: CameraPitch_def Let_def)

lemma view_CameraMoveToTarget:
  "Vector3Subtract (target (CameraMoveToTarget camera delta)) (position (CameraMoveToTarget camera delta))
     = Vector3Scale (GetCameraForward camera)
         (if Vector3Distance (position camera) (target camera) + delta \<le> 0 then 1 / 1000
          else Vector3Distance (position camera) (target camera) + delta)"
  by (simp add: CameraMoveToTarget_def Let_def)

lemma Vector3Length_GetCameraForward:
  "position camera \<noteq> target camera \<Longrightarrow> Vector3Length (GetCameraForward camera) = 1"
  by (simp add: GetCameraForward_def Vector3Length_Normalize
      Vector3Distance_Length [symmetric] Vector3Distance_eq_0_iff)

lemma distance_CameraMoveToTarget:
  assumes "position camera \<noteq> target camera"
  shows "Vector3Distance (position (CameraMoveToTarget camera delta))
           (target (CameraMoveToTarget camera delta))
         = (if Vector3Distance (position camera) (target camera) + delta \<le> 0 then 1 / 1000
            else Vector3Distance (position camera) (target camera) + delta)"
  using assms
  by (simp add: Vector3Distance_Length view_CameraMoveToTarget Vector3Length_Scale
      Vector3Length_GetCameraForward)

lemma apart_view:
  "p \<noteq> t \<longleftrightarrow> Vector3Length (Vector3Subtract t p) \<noteq> 0"
  using Vector3Distance_eq_0_iff [of p t] by (simp add: Vector3Distance_Length)

subsection \<open>The scenario camera\<close>

lemma sqrt_100 [simp]: "sqrt 100 = 10"
  using real_sqrt_abs [of 10] by simp

lemma scenarioCamera_distance: "Vector3Distance (position scenarioCamera) (target scenarioCamera) = 10"
  by (simp add: scenarioCamera_def Vector3Distance_def)

lemma scenarioCamera_apart: "position scenarioCamera \<noteq> target scenarioCamera"
  by (simp add: scenarioCamera_def)

lemma scenarioCamera_forward: "GetCameraForward scenarioCamera = \<lparr>v3x = 0, v3y = 0, v3z = - 1\<rparr>"
  by (simp add: scenarioCamera_def GetCameraForward_def Vector3Normalize_def Vector3Length_def
      Vector3Subtract_def Vector3Scale_def)


subsection \<open>The world plane\<close>

lemma sqrt_25 [simp]: "sqrt 25 = 5"
  using real_sqrt_abs [of 5] by simp

lemma component_projectOntoWorldPlane:
  "projectOntoWorldPlane camera v = Vector3Normalize (zeroComponent (worldPlaneAxis (up camera)) v)"
  by (simp add: projectOntoWorldPlane_def worldPlaneAxis_def)

lemma component_Normalize_zeroComponent:
  "component a (Vector3Normalize (zeroComponent a v)) = 0"
  by (cases a) (simp_all add: Vector3Normalize_def Let_def Vector3Scale_def)

lemma component_Add_Scale:
  "component a (Vector3Add p (Vector3Scale m d)) = component a p + component a m * d"
  by (cases a) (simp_all add: Vector3Add_def Vector3Scale_def)

lemma tiltedCamera_forward: "GetCameraForward tiltedCamera = \<lparr>v3x = 3 / 5, v3y = 4 / 5, v3z = 0\<rparr>"
  by (simp add: tiltedCamera_def GetCameraForward_def Vector3Normalize_def Vector3Length_def
      Vector3Subtract_def Vector3Scale_def)

subsection \<open>Rotations by the angle zero and movements by the distance zero\<close>

lemma Vector3RotateByAxisAngle_zero [simp]: "Vector3RotateByAxisAngle v axis 0 = v"
  by (simp add: Vector3RotateByAxisAngle_def Let_def Vector3_eq_iff Vector3Add_def Vector3Scale_def
      Vector3CrossProduct_def)

lemma CameraYaw_zero [simp]: "CameraYaw camera 0 rotateAroundTarget = camera"
  by (simp add: CameraYaw_def Let_def)

lemma CameraPitch_zero [simp]: "CameraPitch camera 0 False rotateAroundTarget rotateUp = camera"
  by (simp add: CameraPitch_def Let_def)

lemma CameraRoll_zero [simp]: "CameraRoll camera 0 = camera"
  by (simp add: CameraRoll_def Let_def)

lemma Vector3Add_Scale_zero [simp]: "Vector3Add p (Vector3Scale m 0) = p"
  by (simp add: Vector3_eq_iff Vector3Add_def Vector3Scale_def)

lemma CameraMoveForward_zero [simp]: "CameraMoveForward camera 0 moveInWorldPlane = camera"
  by (simp add: CameraMoveForward_def Let_def)

lemma CameraMoveRight_zero [simp]: "CameraMoveRight camera 0 moveInWorldPlane = camera"
  by (simp add: CameraMoveRight_def Let_def)

lemma CameraMoveUp_zero [simp]: "CameraMoveUp camera 0 = camera"
  by (simp add: CameraMoveUp_def Let_def)

lemma target_CameraMoveToTarget: "target (CameraMoveToTarget camera delta) = target camera"
  by (simp add: CameraMoveToTarget_def Let_def)

section \<open>Angles and rotations\<close>

subsection \<open>A bound of the arctangent\<close>

lemma arctan_le_self: "0 \<le> x \<Longrightarrow> arctan x \<le> (x::real)"
proof -
  assume x: "0 \<le> x"
  have "\<exists>y. DERIV (\<lambda>t. t - arctan t) t :> y \<and> 0 \<le> y" for t :: real
  proof -
    have "DERIV (\<lambda>t. t - arctan t) t :> 1 - inverse (1 + t\<^sup>2)"
      by (auto intro!: derivative_eq_intros)
    moreover have "0 \<le> 1 - inverse (1 + t\<^sup>2)"
    proof -
      have "1 \<le> 1 + t\<^sup>2" by simp
      then have "inverse (1 + t\<^sup>2) \<le> 1" by (simp add: inverse_le_1_iff)
      then show ?thesis by simp
    qed
    ultimately show ?thesis by blast
  qed
  note d = this
  have "(\<lambda>t. t - arctan t) 0 \<le> (\<lambda>t. t - arctan t) x"
    by (rule DERIV_nonneg_imp_nondecreasing [OF x]) (rule d)
  then show ?thesis by simp
qed

subsection \<open>The two-argument arctangent\<close>

lemma atan2f_pos:
  assumes "0 < y"
  shows "0 < atan2f y x \<and> atan2f y x < pi"
proof -
  consider "0 < x" | "x < 0" | "x = 0" by linarith
  then show ?thesis
  proof cases
    case 1
    with assms have "0 < y / x" by simp
    then have "0 < arctan (y / x)" by simp
    moreover have "arctan (y / x) < pi / 2" by (rule arctan_ubound)
    ultimately have "0 < arctan (y / x) \<and> arctan (y / x) < pi"
      using pi_gt_zero by linarith
    then show ?thesis using 1 by (simp add: atan2f_def)
  next
    case 2
    with assms have "y / x < 0" by (simp add: divide_pos_neg)
    then have "arctan (y / x) < 0" by simp
    moreover have "- (pi / 2) < arctan (y / x)" by (rule arctan_lbound)
    ultimately have "0 < arctan (y / x) + pi \<and> arctan (y / x) + pi < pi"
      using pi_gt_zero by linarith
    then show ?thesis using 2 assms by (simp add: atan2f_def)
  next
    case 3
    with assms show ?thesis using pi_gt_zero by (simp add: atan2f_def)
  qed
qed

lemma atan2f_minus:
  assumes "0 < y"
  shows "atan2f y (- x) = pi - atan2f y x"
proof -
  consider "0 < x" | "x < 0" | "x = 0" by linarith
  then show ?thesis
  proof cases
    case 1
    with assms show ?thesis by (simp add: atan2f_def arctan_minus)
  next
    case 2
    with assms show ?thesis by (simp add: atan2f_def arctan_minus)
  next
    case 3
    with assms show ?thesis by (simp add: atan2f_def)
  qed
qed

subsection \<open>Products of vectors\<close>

lemma Vector3CrossProduct_Scale_left:
  "Vector3CrossProduct (Vector3Scale a s) b = Vector3Scale (Vector3CrossProduct a b) s"
  by (simp add: Vector3_eq_iff Vector3CrossProduct_def Vector3Scale_def algebra_simps)

lemma Vector3CrossProduct_Scale_right:
  "Vector3CrossProduct a (Vector3Scale b s) = Vector3Scale (Vector3CrossProduct a b) s"
  by (simp add: Vector3_eq_iff Vector3CrossProduct_def Vector3Scale_def algebra_simps)

lemma Vector3CrossProduct_Negate_left:
  "Vector3CrossProduct (Vector3Negate a) b = Vector3Negate (Vector3CrossProduct a b)"
  by (simp add: Vector3_eq_iff Vector3CrossProduct_def Vector3Negate_def algebra_simps)

lemma Vector3CrossProduct_swap:
  "Vector3CrossProduct a b = Vector3Scale (Vector3CrossProduct b a) (- 1)"
  by (simp add: Vector3_eq_iff Vector3CrossProduct_def Vector3Scale_def algebra_simps)

lemma Vector3Length_Negate [simp]: "Vector3Length (Vector3Negate v) = Vector3Length v"
  by (simp add: Vector3Length_def Vector3Negate_def)

lemma Vector3DotProduct_Negate_left:
  "Vector3DotProduct (Vector3Negate a) b = - Vector3DotProduct a b"
  by (simp add: Vector3DotProduct_def Vector3Negate_def)

lemma Vector3DotProduct_Scale_left:
  "Vector3DotProduct (Vector3Scale a s) b = s * Vector3DotProduct a b"
  by (simp add: Vector3DotProduct_def Vector3Scale_def algebra_simps)

lemma Vector3DotProduct_Scale_right:
  "Vector3DotProduct a (Vector3Scale b s) = s * Vector3DotProduct a b"
  by (simp add: Vector3DotProduct_def Vector3Scale_def algebra_simps)

lemma Vector3DotProduct_Add_left:
  "Vector3DotProduct (Vector3Add a b) c = Vector3DotProduct a c + Vector3DotProduct b c"
  by (simp add: Vector3DotProduct_def Vector3Add_def algebra_simps)

lemma Vector3DotProduct_commute: "Vector3DotProduct a b = Vector3DotProduct b a"
  by (simp add: Vector3DotProduct_def algebra_simps)

lemma Vector3DotProduct_Cross_left [simp]: "Vector3DotProduct (Vector3CrossProduct a b) a = 0"
  by (simp add: Vector3DotProduct_def Vector3CrossProduct_def algebra_simps)

lemma Vector3DotProduct_Cross_right [simp]: "Vector3DotProduct (Vector3CrossProduct a b) b = 0"
  by (simp add: Vector3DotProduct_def Vector3CrossProduct_def algebra_simps)

lemma Vector3CrossProduct_Add_right:
  "Vector3CrossProduct a (Vector3Add b c) = Vector3Add (Vector3CrossProduct a b) (Vector3CrossProduct a c)"
  by (simp add: Vector3_eq_iff Vector3CrossProduct_def Vector3Add_def algebra_simps)

lemma Vector3CrossProduct_Cross:
  "Vector3CrossProduct a (Vector3CrossProduct b c)
     = Vector3Subtract (Vector3Scale b (Vector3DotProduct a c)) (Vector3Scale c (Vector3DotProduct a b))"
  by (simp add: Vector3_eq_iff Vector3CrossProduct_def Vector3Subtract_def Vector3Scale_def
      Vector3DotProduct_def algebra_simps)

lemma Lagrange_identity:
  "Vector3DotProduct (Vector3CrossProduct a b) (Vector3CrossProduct a b)
     = Vector3DotProduct a a * Vector3DotProduct b b - (Vector3DotProduct a b)\<^sup>2"
  by (simp add: Vector3DotProduct_def Vector3CrossProduct_def power2_eq_square algebra_simps)

lemma Vector3Normalize_unit: "Vector3Length v = 1 \<Longrightarrow> Vector3Normalize v = v"
  by (simp add: Vector3Normalize_def Vector3_eq_iff Vector3Scale_def)

lemma Vector3Normalize_Scale: "Vector3Normalize v = Vector3Scale v (1 / Vector3Length v)"
proof (cases "Vector3Length v = 0")
  case True
  then have "v = \<lparr>v3x = 0, v3y = 0, v3z = 0\<rparr>"
    by (simp add: Vector3Length_eq_0_iff)
  then show ?thesis
    by (simp add: Vector3Normalize_def Vector3Length_def Vector3Scale_def)
next
  case False
  then show ?thesis
    by (simp add: Vector3Normalize_def)
qed

subsection \<open>The rotation about a unit axis perpendicular to the vector\<close>

lemma rotate_perpendicular_components:
  fixes s c :: real
  assumes "rx * rx + ry * ry + rz * rz = 1" and "rx * vx + ry * vy + rz * vz = 0"
  shows "vx + (ry * s * vz - rz * s * vy) * (2 * c)
           + (ry * s * (rx * s * vy - ry * s * vx) - rz * s * (rz * s * vx - rx * s * vz)) * 2
         = vx * (1 - 2 * s\<^sup>2) + (ry * vz - rz * vy) * (2 * s * c)"
  using assms by algebra


lemma Vector3Length_unit_components:
  "Vector3Length r = 1 \<Longrightarrow> v3x r * v3x r + v3y r * v3y r + v3z r * v3z r = 1"
  using Vector3DotProduct_self [of r] by (simp add: Vector3DotProduct_def)

lemma rotate_perpendicular:
  assumes "Vector3Length r = 1" and "Vector3DotProduct r v = 0"
  shows "Vector3RotateByAxisAngle v r a
         = Vector3Add (Vector3Scale v (cos a)) (Vector3Scale (Vector3CrossProduct r v) (sin a))"
proof -
  define s where "s = sin (a / 2)"
  define c where "c = cos (a / 2)"
  have ca: "cos a = 1 - 2 * s\<^sup>2"
    using cos_double_sin [of "a / 2"] by (simp add: s_def)
  have sa: "sin a = 2 * s * c"
    using sin_double [of "a / 2"] by (simp add: s_def c_def)
  have l: "v3x r * v3x r + v3y r * v3y r + v3z r * v3z r = 1"
    using assms(1) by (rule Vector3Length_unit_components)
  have l2: "v3y r * v3y r + v3z r * v3z r + v3x r * v3x r = 1"
    and l3: "v3z r * v3z r + v3x r * v3x r + v3y r * v3y r = 1"
    using l by simp_all
  have d: "v3x r * v3x v + v3y r * v3y v + v3z r * v3z v = 0"
    using assms(2) by (simp add: Vector3DotProduct_def)
  have d2: "v3y r * v3y v + v3z r * v3z v + v3x r * v3x v = 0"
    and d3: "v3z r * v3z v + v3x r * v3x v + v3y r * v3y v = 0"
    using d by simp_all
  show ?thesis
    unfolding Vector3RotateByAxisAngle_def Let_def Vector3Normalize_unit [OF assms(1)]
      s_def [symmetric] c_def [symmetric] ca sa
    using rotate_perpendicular_components [OF l d, of s c]
      rotate_perpendicular_components [OF l2 d2, of s c]
      rotate_perpendicular_components [OF l3 d3, of s c]
    by (simp add: Vector3_eq_iff Vector3Add_def Vector3Scale_def Vector3CrossProduct_def)
qed

lemma rotate_perpendicular_moves:
  assumes r: "Vector3Length r = 1" and d: "Vector3DotProduct r v = 0"
    and v: "Vector3Length v \<noteq> 0" and a: "sin a \<noteq> 0"
  shows "Vector3RotateByAxisAngle v r a \<noteq> v"
proof
  assume e: "Vector3RotateByAxisAngle v r a = v"
  let ?n = "Vector3CrossProduct r v"
  have "Vector3DotProduct (Vector3RotateByAxisAngle v r a) ?n = Vector3DotProduct v ?n"
    by (simp add: e)
  moreover have "Vector3DotProduct v ?n = 0"
    by (simp add: Vector3DotProduct_commute [of v])
  ultimately have "sin a * Vector3DotProduct ?n ?n = 0"
    by (simp add: rotate_perpendicular [OF r d] Vector3DotProduct_Add_left
        Vector3DotProduct_Scale_left)
  moreover have "Vector3DotProduct ?n ?n = (Vector3Length v)\<^sup>2"
    unfolding Lagrange_identity d by (simp add: Vector3DotProduct_self r)
  ultimately show False
    using v a by simp
qed

subsection \<open>Scaled and normalized vectors\<close>

lemma Vector3Scale_Scale: "Vector3Scale (Vector3Scale v s) t = Vector3Scale v (s * t)"
  by (simp add: Vector3_eq_iff Vector3Scale_def)

lemma Vector3CrossProduct_zero_right:
  "Vector3Length v = 0 \<Longrightarrow> Vector3CrossProduct w v = \<lparr>v3x = 0, v3y = 0, v3z = 0\<rparr>"
  by (simp add: Vector3Length_eq_0_iff Vector3CrossProduct_def)

lemma Vector3Length_zero [simp]: "Vector3Length \<lparr>v3x = 0, v3y = 0, v3z = 0\<rparr> = 0"
  by (simp add: Vector3Length_def)

lemma Vector3Length_pos: "Vector3Length v \<noteq> 0 \<Longrightarrow> 0 < Vector3Length v"
  by (simp add: less_le)

lemma Vector3Length_Cross_nonzero:
  assumes "Vector3Length (Vector3CrossProduct a b) \<noteq> 0"
  shows "Vector3Length a \<noteq> 0" and "Vector3Length b \<noteq> 0"
  using assms Vector3CrossProduct_zero_left [of a b] Vector3CrossProduct_zero_right [of b a]
  by auto

lemma Vector3CrossProduct_Normalize:
  "Vector3CrossProduct (Vector3Normalize a) (Vector3Normalize b)
     = Vector3Scale (Vector3CrossProduct a b) (1 / Vector3Length a * (1 / Vector3Length b))"
  by (simp add: Vector3Normalize_Scale Vector3CrossProduct_Scale_left
      Vector3CrossProduct_Scale_right Vector3Scale_Scale mult.commute)

subsection \<open>The right vector of a camera whose up and view vectors are not parallel\<close>

lemma GetCameraRight_unit_perpendicular:
  fixes camera :: Camera
  defines "view \<equiv> Vector3Subtract (target camera) (position camera)"
  assumes h: "Vector3Length (Vector3CrossProduct (up camera) view) \<noteq> 0"
  shows "Vector3Length (GetCameraRight camera) = 1"
    and "Vector3DotProduct (GetCameraRight camera) view = 0"
    and "Vector3DotProduct (GetCameraUp camera) (GetCameraRight camera) = 0"
    and "Vector3CrossProduct (GetCameraUp camera) view
           = Vector3Scale (GetCameraRight camera)
               (- Vector3Length (Vector3CrossProduct (GetCameraUp camera) view))"
proof -
  let ?c = "Vector3CrossProduct view (up camera)"
  have "Vector3Length ?c \<noteq> 0"
    using h by (simp add: Vector3CrossProduct_swap [of "up camera" view] Vector3Length_Scale)
  then have c: "0 < Vector3Length ?c"
    by (rule Vector3Length_pos)
  have u: "0 < Vector3Length (up camera)" and v: "0 < Vector3Length view"
    using Vector3Length_Cross_nonzero [OF h] by (simp_all add: Vector3Length_pos)
  define k where "k = 1 / Vector3Length view * (1 / Vector3Length (up camera))"
  have k: "0 < k" using u v by (simp add: k_def)
  define n where "n = Vector3CrossProduct (GetCameraForward camera) (GetCameraUp camera)"
  have n: "n = Vector3Scale ?c k"
    by (simp add: n_def GetCameraForward_def GetCameraUp_def view_def [symmetric]
        Vector3CrossProduct_Normalize k_def)
  have ln: "Vector3Length n = k * Vector3Length ?c"
    using k by (simp add: n Vector3Length_Scale)
  then have lnp: "0 < Vector3Length n"
    using k c by simp
  have r: "GetCameraRight camera = Vector3Scale ?c (k * (1 / Vector3Length n))"
    by (simp add: GetCameraRight_def Let_def n_def [symmetric] Vector3Normalize_Scale [of n])
      (simp add: n Vector3Scale_Scale)
  define m where "m = k * (1 / Vector3Length n)"
  have m: "0 < m" using k lnp by (simp add: m_def)
  have r': "GetCameraRight camera = Vector3Scale ?c m"
    by (simp add: r m_def)
  show 1: "Vector3Length (GetCameraRight camera) = 1"
    using k c by (simp add: r Vector3Length_Scale ln)
  show "Vector3DotProduct (GetCameraRight camera) view = 0"
    by (simp add: r' Vector3DotProduct_Scale_left)
  show "Vector3DotProduct (GetCameraUp camera) (GetCameraRight camera) = 0"
    by (simp add: r' GetCameraUp_def Vector3Normalize_Scale Vector3DotProduct_Scale_left
        Vector3DotProduct_Scale_right Vector3DotProduct_commute [of "up camera"])
  have cu: "Vector3CrossProduct (GetCameraUp camera) view
              = Vector3Scale ?c (- (1 / Vector3Length (up camera)))"
    by (simp add: GetCameraUp_def Vector3Normalize_Scale Vector3CrossProduct_Scale_left
        Vector3CrossProduct_swap [of "up camera" view] Vector3Scale_Scale)
  have "Vector3Scale ?c (- (1 / Vector3Length (up camera)))
          = Vector3Scale (GetCameraRight camera) (- (1 / Vector3Length (up camera) / m))"
    using m by (simp add: r' Vector3Scale_Scale)
  with cu have cr: "Vector3CrossProduct (GetCameraUp camera) view
                      = Vector3Scale (GetCameraRight camera) (- (1 / Vector3Length (up camera) / m))"
    by simp
  have "Vector3Length (Vector3CrossProduct (GetCameraUp camera) view)
          = 1 / Vector3Length (up camera) / m"
    using u m by (simp add: cr Vector3Length_Scale 1)
  with cr show "Vector3CrossProduct (GetCameraUp camera) view
           = Vector3Scale (GetCameraRight camera)
               (- Vector3Length (Vector3CrossProduct (GetCameraUp camera) view))"
    by simp
qed

subsection \<open>The clamp of the pitch angle\<close>

lemma Vector3Length_Cross_GetCameraUp:
  assumes "Vector3Length (Vector3CrossProduct (up camera) view) \<noteq> 0"
  shows "0 < Vector3Length (Vector3CrossProduct (GetCameraUp camera) view)"
proof -
  have "0 < Vector3Length (up camera)"
    using Vector3Length_Cross_nonzero(1) [OF assms] by (rule Vector3Length_pos)
  moreover have "0 < Vector3Length (Vector3CrossProduct (up camera) view)"
    using assms by (rule Vector3Length_pos)
  ultimately show ?thesis
    by (simp add: GetCameraUp_def Vector3Normalize_Scale Vector3CrossProduct_Scale_left
        Vector3Length_Scale)
qed

lemma maxAngle_nonparallel:
  fixes camera :: Camera
  defines "view \<equiv> Vector3Subtract (target camera) (position camera)"
  defines "\<theta> \<equiv> Vector3Angle (GetCameraUp camera) view"
  assumes h: "Vector3Length (Vector3CrossProduct (up camera) view) \<noteq> 0"
  shows "maxAngleUp camera = \<theta> - 1 / 1000"
    and "maxAngleDown camera = \<theta> - pi + 1 / 1000"
    and "0 < \<theta>" and "\<theta> < pi"
proof -
  have c: "0 < Vector3Length (Vector3CrossProduct (GetCameraUp camera) view)"
    using h by (rule Vector3Length_Cross_GetCameraUp)
  show "maxAngleUp camera = \<theta> - 1 / 1000"
    by (simp add: maxAngleUp_def \<theta>_def view_def)
  have "Vector3Angle (Vector3Negate (GetCameraUp camera)) view = pi - \<theta>"
    using atan2f_minus [OF c]
    by (simp add: Vector3Angle_def \<theta>_def Vector3CrossProduct_Negate_left
        Vector3DotProduct_Negate_left)
  then show "maxAngleDown camera = \<theta> - pi + 1 / 1000"
    by (simp add: maxAngleDown_def view_def [symmetric])
  show "0 < \<theta>" and "\<theta> < pi"
    using atan2f_pos [OF c] by (simp_all add: \<theta>_def Vector3Angle_def)
qed

lemma lockViewAngle_between:
  assumes "maxAngleDown camera \<le> maxAngleUp camera"
  shows "maxAngleDown camera \<le> lockViewAngle camera angle"
    and "lockViewAngle camera angle \<le> maxAngleUp camera"
  using assms by (simp_all add: lockViewAngle_def Let_def)

lemma pi_gt_small: "2 / 1000 < pi"
  using pi_ge_two by linarith


subsection \<open>The cameras of the scenarios and the pitch\<close>

lemma Vector3RotateByAxisAngle_zero_axis:
  "Vector3RotateByAxisAngle v \<lparr>v3x = 0, v3y = 0, v3z = 0\<rparr> a = v"
  by (simp add: Vector3RotateByAxisAngle_def Let_def Vector3Normalize_def Vector3_eq_iff
      Vector3Add_def Vector3Scale_def Vector3CrossProduct_def)

lemma Vector3Length_unit_y [simp]: "Vector3Length \<lparr>v3x = 0, v3y = 1, v3z = 0\<rparr> = 1"
  by (simp add: Vector3Length_def)

lemma Vector3Normalize_unit_y [simp]:
  "Vector3Normalize \<lparr>v3x = 0, v3y = 1, v3z = 0\<rparr> = \<lparr>v3x = 0, v3y = 1, v3z = 0\<rparr>"
  by (simp add: Vector3Normalize_unit)

lemma Vector3Length_x_axis: "Vector3Length \<lparr>v3x = a, v3y = 0, v3z = 0\<rparr> = \<bar>a\<bar>"
  by (simp add: Vector3Length_def)

lemma poleCamera_right: "GetCameraRight poleCamera = \<lparr>v3x = 0, v3y = 0, v3z = 0\<rparr>"
  by (simp add: GetCameraRight_def GetCameraForward_def GetCameraUp_def poleCamera_def
      Vector3Subtract_def Vector3CrossProduct_def Vector3Normalize_zero_length)

lemma poleCamera_pitch: "CameraPitch poleCamera angle True False False = poleCamera"
  by (simp add: CameraPitch_def Let_def poleCamera_right Vector3RotateByAxisAngle_zero_axis)

lemma lockViewAngle_max_min:
  "lockViewAngle camera angle = max (maxAngleDown camera) (min (maxAngleUp camera) angle)"
  by (simp add: lockViewAngle_def Let_def max_def min_def)

lemma up_CameraPitch:
  "up (CameraPitch camera a l r u)
     = (if u then Vector3RotateByAxisAngle (up camera) (GetCameraRight camera)
                    (if l then lockViewAngle camera a else a)
        else up camera)"
  by (simp add: CameraPitch_def Let_def)

lemma lockViewAngle_zero:
  "maxAngleDown camera \<le> 0 \<Longrightarrow> 0 \<le> maxAngleUp camera \<Longrightarrow> lockViewAngle camera 0 = 0"
  by (simp add: lockViewAngle_def Let_def)

lemma CameraPitch_zero_locked:
  "lockViewAngle camera 0 = 0 \<Longrightarrow> CameraPitch camera 0 True rotateAroundTarget rotateUp = camera"
  by (simp add: CameraPitch_def Let_def)

lemma scenarioCamera_up: "GetCameraUp scenarioCamera = \<lparr>v3x = 0, v3y = 1, v3z = 0\<rparr>"
  by (simp add: GetCameraUp_def scenarioCamera_def)

lemma scenarioCamera_maxAngleUp: "maxAngleUp scenarioCamera = pi / 2 - 1 / 1000"
  unfolding maxAngleUp_def scenarioCamera_up
  by (simp add: scenarioCamera_def Vector3Angle_def Vector3CrossProduct_def Vector3Subtract_def
      Vector3DotProduct_def Vector3Length_def atan2f_def)

lemma scenarioCamera_maxAngleDown: "maxAngleDown scenarioCamera = - (pi / 2) + 1 / 1000"
  unfolding maxAngleDown_def scenarioCamera_up
  by (simp add: scenarioCamera_def Vector3Angle_def Vector3CrossProduct_def Vector3Subtract_def
      Vector3DotProduct_def Vector3Length_def Vector3Negate_def atan2f_def)

subsection \<open>The camera near the pole\<close>

lemma nearPoleCamera_up: "GetCameraUp nearPoleCamera = \<lparr>v3x = 0, v3y = 1, v3z = 0\<rparr>"
  by (simp add: GetCameraUp_def nearPoleCamera_def)

lemma nearPoleCamera_view:
  "Vector3Subtract (target nearPoleCamera) (position nearPoleCamera)
     = \<lparr>v3x = 0, v3y = 1, v3z = 1 / 2000\<rparr>"
  by (simp add: nearPoleCamera_def Vector3Subtract_def)

lemma nearPoleCamera_cross:
  "Vector3CrossProduct (up nearPoleCamera)
     (Vector3Subtract (target nearPoleCamera) (position nearPoleCamera))
   = \<lparr>v3x = 1 / 2000, v3y = 0, v3z = 0\<rparr>"
  by (simp add: nearPoleCamera_view) (simp add: nearPoleCamera_def Vector3CrossProduct_def)

lemma nearPoleCamera_nonparallel:
  "Vector3Length (Vector3CrossProduct (up nearPoleCamera)
     (Vector3Subtract (target nearPoleCamera) (position nearPoleCamera))) \<noteq> 0"
  unfolding nearPoleCamera_cross Vector3Length_x_axis by simp

lemma nearPoleCamera_angle:
  "Vector3Angle (GetCameraUp nearPoleCamera)
     (Vector3Subtract (target nearPoleCamera) (position nearPoleCamera)) = arctan (1 / 2000)"
proof -
  have c: "Vector3CrossProduct \<lparr>v3x = 0, v3y = 1, v3z = 0\<rparr> \<lparr>v3x = 0, v3y = 1, v3z = 1 / 2000\<rparr>
          = \<lparr>v3x = 1 / 2000, v3y = 0, v3z = 0\<rparr>"
    by (simp add: Vector3CrossProduct_def)
  have l: "Vector3Length \<lparr>v3x = 1 / 2000, v3y = 0, v3z = 0\<rparr> = 1 / 2000"
    unfolding Vector3Length_x_axis by simp
  have d: "Vector3DotProduct \<lparr>v3x = 0, v3y = 1, v3z = 0\<rparr> \<lparr>v3x = 0, v3y = 1, v3z = 1 / 2000\<rparr> = 1"
    by (simp add: Vector3DotProduct_def)
  show ?thesis
    unfolding nearPoleCamera_up nearPoleCamera_view Vector3Angle_def c l d
    by (simp add: atan2f_def)
qed

lemma nearPoleCamera_lockViewAngle:
  "lockViewAngle nearPoleCamera 0 = arctan (1 / 2000) - 1 / 1000"
proof -
  note m = maxAngle_nonparallel [OF nearPoleCamera_nonparallel]
  have le: "maxAngleDown nearPoleCamera \<le> maxAngleUp nearPoleCamera"
    using pi_gt_small by (simp add: m(1,2))
  have "arctan (1 / 2000) \<le> (1 / 2000 :: real)"
    by (rule arctan_le_self) simp
  then have "maxAngleUp nearPoleCamera < 0"
    by (simp add: m(1) nearPoleCamera_angle)
  with le have "lockViewAngle nearPoleCamera 0 = maxAngleUp nearPoleCamera"
    by (simp add: lockViewAngle_def Let_def)
  then show ?thesis
    by (simp add: m(1) nearPoleCamera_angle)
qed

lemma nearPoleCamera_pitch:
  "target (CameraPitch nearPoleCamera 0 True False False) \<noteq> target nearPoleCamera"
proof
  let ?view = "Vector3Subtract (target nearPoleCamera) (position nearPoleCamera)"
  let ?a = "lockViewAngle nearPoleCamera 0"
  assume "target (CameraPitch nearPoleCamera 0 True False False) = target nearPoleCamera"
  then have "Vector3Subtract (target (CameraPitch nearPoleCamera 0 True False False))
               (position (CameraPitch nearPoleCamera 0 True False False))
             = Vector3Subtract (target nearPoleCamera) (position nearPoleCamera)"
    by (simp add: CameraPitch_def Let_def)
  then have e: "Vector3RotateByAxisAngle ?view (GetCameraRight nearPoleCamera) ?a = ?view"
    by (simp add: view_CameraPitch)
  have "0 < arctan (1 / 2000 :: real)"
    by simp
  moreover have "arctan (1 / 2000) \<le> (1 / 2000 :: real)"
    by (rule arctan_le_self) simp
  ultimately have "0 < - ?a" and "- ?a < pi"
    unfolding nearPoleCamera_lockViewAngle using pi_ge_two by linarith+
  then have "0 < sin (- ?a)"
    by (rule sin_gt_zero)
  then have s: "sin ?a \<noteq> 0"
    by simp
  have v: "Vector3Length ?view \<noteq> 0"
    using nearPoleCamera_nonparallel by (rule Vector3Length_Cross_nonzero(2))
  from rotate_perpendicular_moves [OF
      GetCameraRight_unit_perpendicular(1) [OF nearPoleCamera_nonparallel]
      GetCameraRight_unit_perpendicular(2) [OF nearPoleCamera_nonparallel] v s] e
  show False by simp
qed


subsection \<open>The bounds of the pitch angle\<close>

lemma atan2f_minus_nonneg:
  assumes "0 \<le> y" and "y \<noteq> 0 \<or> x \<noteq> 0"
  shows "atan2f y (- x) = pi - atan2f y x"
proof (cases "0 < y")
  case True
  then show ?thesis by (rule atan2f_minus)
next
  case False
  with assms have y: "y = 0" and x: "x \<noteq> 0" by auto
  from x consider "0 < x" | "x < 0" by linarith
  then show ?thesis
    by cases (simp_all add: atan2f_def y)
qed

lemma Vector3Length_GetCameraUp:
  "up camera \<noteq> \<lparr>v3x = 0, v3y = 0, v3z = 0\<rparr> \<Longrightarrow> Vector3Length (GetCameraUp camera) = 1"
  by (simp add: GetCameraUp_def Vector3Length_Normalize Vector3Length_eq_0_iff)

lemma cross_dot_not_both_zero:
  assumes u: "Vector3Length U = 1" and v: "Vector3Length v \<noteq> 0"
  shows "Vector3Length (Vector3CrossProduct U v) \<noteq> 0 \<or> Vector3DotProduct U v \<noteq> 0"
proof (rule ccontr)
  assume "\<not> ?thesis"
  then have c: "Vector3Length (Vector3CrossProduct U v) = 0" and d: "Vector3DotProduct U v = 0"
    by simp_all
  have "Vector3DotProduct (Vector3CrossProduct U v) (Vector3CrossProduct U v)
          = Vector3DotProduct U U * Vector3DotProduct v v - (Vector3DotProduct U v)\<^sup>2"
    by (rule Lagrange_identity)
  then have "(Vector3Length v)\<^sup>2 = 0"
    by (simp add: Vector3DotProduct_self c d u)
  with v show False by simp
qed

lemma maxAngleDown_maxAngleUp:
  assumes u: "up camera \<noteq> \<lparr>v3x = 0, v3y = 0, v3z = 0\<rparr>" and p: "position camera \<noteq> target camera"
  shows "maxAngleDown camera = maxAngleUp camera - pi + 2 / 1000"
proof -
  let ?U = "GetCameraUp camera"
  let ?v = "Vector3Subtract (target camera) (position camera)"
  have v: "Vector3Length ?v \<noteq> 0"
    using p by (simp add: apart_view)
  have n: "Vector3Length (Vector3CrossProduct ?U ?v) \<noteq> 0 \<or> Vector3DotProduct ?U ?v \<noteq> 0"
    using Vector3Length_GetCameraUp [OF u] v by (rule cross_dot_not_both_zero)
  have "Vector3Angle (Vector3Negate ?U) ?v = pi - Vector3Angle ?U ?v"
    using atan2f_minus_nonneg [OF Vector3Length_nonneg n]
    by (simp add: Vector3Angle_def Vector3CrossProduct_Negate_left Vector3DotProduct_Negate_left)
  then show ?thesis
    by (simp add: maxAngleDown_def maxAngleUp_def)
qed

lemma scenarioCamera_lockViewAngle: "lockViewAngle scenarioCamera 2 = pi / 2 - 1 / 1000"
  using pi_half_less_two pi_ge_two
  by (simp add: lockViewAngle_def Let_def scenarioCamera_maxAngleUp scenarioCamera_maxAngleDown)


section \<open>Frame properties of the rotations\<close>

text \<open>
  C6: for every camera and angle, \<^verbatim>\<open>CameraYaw\<close> with \<^verbatim>\<open>rotateAroundTarget\<close> set leaves the
  target exactly as it was, and \<^verbatim>\<open>CameraYaw\<close> with \<^verbatim>\<open>rotateAroundTarget\<close> clear leaves the
  position exactly as it was; the up vector is the same in both cases (and so are the
  field of view and the projection).
\<close>

theorem CameraYaw_frame:
  "target (CameraYaw camera angle True) = target camera \<and>
   position (CameraYaw camera angle False) = position camera \<and>
   up (CameraYaw camera angle rotateAroundTarget) = up camera \<and>
   fovy (CameraYaw camera angle rotateAroundTarget) = fovy camera \<and>
   projection (CameraYaw camera angle rotateAroundTarget) = projection camera"
  by (simp add: CameraYaw_def Let_def)

text \<open>
  C8: for every camera and angle, \<^verbatim>\<open>CameraRoll\<close> leaves position and target exactly as they
  were; only the stored up vector changes, to the old up vector rotated about the forward
  axis by the angle.
\<close>

theorem CameraRoll_frame:
  "CameraRoll camera angle =
     camera\<lparr>up := Vector3RotateByAxisAngle (up camera) (GetCameraForward camera) angle\<rparr> \<and>
   position (CameraRoll camera angle) = position camera \<and>
   target (CameraRoll camera angle) = target camera"
  by (simp add: CameraRoll_def Let_def)


section \<open>The distance to the target\<close>




section \<open>The parametrized update\<close>

text \<open>
  C9: for every camera, movement vector, rotation vector in degrees and zoom,
  \<^verbatim>\<open>rl_UpdateCameraPro\<close> is the sequence of \<^verbatim>\<open>CameraPitch\<close> with \<^verbatim>\<open>lockView\<close> set,
  \<^verbatim>\<open>rotateAroundTarget\<close> clear and \<^verbatim>\<open>rotateUp\<close> clear, \<^verbatim>\<open>CameraYaw\<close> with
  \<^verbatim>\<open>rotateAroundTarget\<close> clear and \<^verbatim>\<open>CameraRoll\<close>, each on its component of the rotation
  multiplied by \<open>\<pi> / 180\<close>, then of \<^verbatim>\<open>CameraMoveForward\<close> and \<^verbatim>\<open>CameraMoveRight\<close>, both with
  \<^verbatim>\<open>moveInWorldPlane\<close> set, and \<^verbatim>\<open>CameraMoveUp\<close>, each on its component of the movement,
  and last of \<^verbatim>\<open>CameraMoveToTarget\<close> on the zoom.
\<close>

theorem rl_UpdateCameraPro_sequence:
  "rl_UpdateCameraPro camera movement rotation zoom =
     CameraMoveToTarget
       (CameraMoveUp
         (CameraMoveRight
           (CameraMoveForward
             (CameraRoll
               (CameraYaw
                 (CameraPitch camera (- v3y rotation * (pi / 180)) True False False)
                 (- v3x rotation * (pi / 180)) False)
               (v3z rotation * (pi / 180)))
             (v3x movement) True)
           (v3y movement) True)
         (v3z movement))
       zoom"
  by (simp add: rl_UpdateCameraPro_def rl_DEG2RAD_def Let_def)

section \<open>Movement in the world plane\<close>

text \<open>
  C4, as stated: the component of the movement that is zeroed is the one most aligned with
  up, the one whose up component is above 0.7071 in absolute value. It fails for a camera
  with the stored up vector (0,2,1): the y component of up is the largest and is above
  0.7071, and yet \<^verbatim>\<open>CameraMoveForward\<close> in the world plane moves the position along y; the
  z component, tested first, is the one zeroed.
\<close>

theorem world_plane_axis_counterexample:
  "\<bar>v3y (up tiltedCamera)\<bar> > 7071 / 10000 \<and>
   \<bar>v3y (up tiltedCamera)\<bar> > \<bar>v3x (up tiltedCamera)\<bar> \<and>
   \<bar>v3y (up tiltedCamera)\<bar> > \<bar>v3z (up tiltedCamera)\<bar> \<and>
   v3y (position (CameraMoveForward tiltedCamera 5 True)) \<noteq> v3y (position tiltedCamera)"
  by (simp add: CameraMoveForward_def Let_def tiltedCamera_forward)
     (simp add: tiltedCamera_def projectOntoWorldPlane_def Vector3Normalize_def Vector3Length_def
        Vector3Scale_def Vector3Add_def)

text \<open>
  C4, amended: for every camera and distance, \<^verbatim>\<open>CameraMoveForward\<close> and \<^verbatim>\<open>CameraMoveRight\<close>
  with \<^verbatim>\<open>moveInWorldPlane\<close> set zero one component of the forward (right) vector,
  renormalize it and scale it by the distance before they add it to position and target.
  The component is chosen from the stored up vector, not normalized, in a fixed order: z
  if the absolute value of up.z is above 0.7071, else x if that of up.x is, else y; up.y is
  never tested. The chosen component of position and of target is left as it was.
\<close>

theorem CameraMove_world_plane:
  "CameraMoveForward camera distance True =
     (let axis = worldPlaneAxis (up camera);
          forward = Vector3Normalize (zeroComponent axis (GetCameraForward camera));
          forward = Vector3Scale forward distance
      in camera\<lparr>position := Vector3Add (position camera) forward,
                target := Vector3Add (target camera) forward\<rparr>) \<and>
   CameraMoveRight camera distance True =
     (let axis = worldPlaneAxis (up camera);
          right = Vector3Normalize (zeroComponent axis (GetCameraRight camera));
          right = Vector3Scale right distance
      in camera\<lparr>position := Vector3Add (position camera) right,
                target := Vector3Add (target camera) right\<rparr>) \<and>
   component (worldPlaneAxis (up camera)) (position (CameraMoveForward camera distance True))
     = component (worldPlaneAxis (up camera)) (position camera) \<and>
   component (worldPlaneAxis (up camera)) (target (CameraMoveForward camera distance True))
     = component (worldPlaneAxis (up camera)) (target camera) \<and>
   component (worldPlaneAxis (up camera)) (position (CameraMoveRight camera distance True))
     = component (worldPlaneAxis (up camera)) (position camera) \<and>
   component (worldPlaneAxis (up camera)) (target (CameraMoveRight camera distance True))
     = component (worldPlaneAxis (up camera)) (target camera)"
  by (simp add: CameraMoveForward_def CameraMoveRight_def Let_def component_projectOntoWorldPlane
      component_Add_Scale component_Normalize_zeroComponent)


section \<open>The mode-driven update\<close>





section \<open>The pitch under a locked view\<close>





section \<open>The yaw of the parametrized update\<close>

text \<open>
  C10, as stated: for every camera and yaw input \<open>r\<close>, \<^verbatim>\<open>rl_UpdateCameraPro\<close> on the rotation
  \<open>(r, 0, 0)\<close>, no movement and no zoom leaves the camera that \<^verbatim>\<open>CameraYaw\<close> by
  \<open>- r * \<pi> / 180\<close> about the position, followed by the movements and the zoom by zero,
  leaves. It fails for \<open>r = 0\<close> and a camera that looks up at less than 0.001 from its up
  vector: the update first calls \<^verbatim>\<open>CameraPitch\<close> with the angle 0 and \<^verbatim>\<open>lockView\<close> set, the
  clamp turns the angle 0 into a negative one, and the target moves.
\<close>

theorem rl_UpdateCameraPro_yaw_counterexample:
  "rl_UpdateCameraPro nearPoleCamera \<lparr>v3x = 0, v3y = 0, v3z = 0\<rparr> \<lparr>v3x = 0, v3y = 0, v3z = 0\<rparr> 0
     \<noteq> CameraMoveToTarget
         (CameraMoveUp
           (CameraMoveRight
             (CameraMoveForward (CameraYaw nearPoleCamera (- 0 * (pi / 180)) False) 0 True)
             0 True)
           0)
         0"
proof
  assume "rl_UpdateCameraPro nearPoleCamera \<lparr>v3x = 0, v3y = 0, v3z = 0\<rparr> \<lparr>v3x = 0, v3y = 0, v3z = 0\<rparr> 0
     = CameraMoveToTarget
         (CameraMoveUp
           (CameraMoveRight
             (CameraMoveForward (CameraYaw nearPoleCamera (- 0 * (pi / 180)) False) 0 True)
             0 True)
           0)
         0"
  then have "target (rl_UpdateCameraPro nearPoleCamera \<lparr>v3x = 0, v3y = 0, v3z = 0\<rparr>
                \<lparr>v3x = 0, v3y = 0, v3z = 0\<rparr> 0)
             = target (CameraMoveToTarget
         (CameraMoveUp
           (CameraMoveRight
             (CameraMoveForward (CameraYaw nearPoleCamera (- 0 * (pi / 180)) False) 0 True)
             0 True)
           0)
         0)"
    by simp
  then have "target (CameraPitch nearPoleCamera 0 True False False) = target nearPoleCamera"
    by (simp add: rl_UpdateCameraPro_def rl_DEG2RAD_def Let_def target_CameraMoveToTarget)
  with nearPoleCamera_pitch show False
    by simp
qed

text \<open>
  C10, amended: for every camera for which the clamp of \<^verbatim>\<open>CameraPitch\<close> leaves the angle 0
  as it is, that is whose lower bound of the pitch angle is at most 0 and whose upper
  bound is at least 0 (the view vector is 0.001 or more away from both poles), and for
  every yaw input \<open>r\<close>, \<^verbatim>\<open>rl_UpdateCameraPro\<close> on the rotation \<open>(r, 0, 0)\<close>, no movement and no
  zoom leaves the camera that \<^verbatim>\<open>CameraYaw\<close> by \<open>- r * \<pi> / 180\<close> with \<^verbatim>\<open>rotateAroundTarget\<close>
  clear, followed by \<^verbatim>\<open>CameraMoveForward\<close>, \<^verbatim>\<open>CameraMoveRight\<close>, \<^verbatim>\<open>CameraMoveUp\<close> and
  \<^verbatim>\<open>CameraMoveToTarget\<close> by zero, leaves: the yaw input is negated before it is passed on.
\<close>

theorem rl_UpdateCameraPro_yaw:
  assumes "maxAngleDown camera \<le> 0" and "0 \<le> maxAngleUp camera"
  shows "rl_UpdateCameraPro camera \<lparr>v3x = 0, v3y = 0, v3z = 0\<rparr> \<lparr>v3x = r, v3y = 0, v3z = 0\<rparr> 0
         = CameraMoveToTarget
             (CameraMoveUp
               (CameraMoveRight
                 (CameraMoveForward (CameraYaw camera (- r * (pi / 180)) False) 0 True)
                 0 True)
               0)
             0"
proof -
  have "lockViewAngle camera 0 = 0"
    using assms by (rule lockViewAngle_zero)
  then have "CameraPitch camera 0 True False False = camera"
    by (rule CameraPitch_zero_locked)
  then show ?thesis
    by (simp add: rl_UpdateCameraPro_def rl_DEG2RAD_def Let_def)
qed

text \<open>
  The scenario camera, whose view vector is at a right angle to its up vector, so that
  the bounds of the pitch angle are \<open>- \<pi> / 2 + 0.001\<close> and \<open>\<pi> / 2 - 0.001\<close>, and a yaw input
  of 90 degrees.
\<close>

theorem rl_UpdateCameraPro_yaw_witness:
  "maxAngleDown scenarioCamera \<le> 0 \<and> 0 \<le> maxAngleUp scenarioCamera \<and>
   rl_UpdateCameraPro scenarioCamera \<lparr>v3x = 0, v3y = 0, v3z = 0\<rparr> \<lparr>v3x = 90, v3y = 0, v3z = 0\<rparr> 0
     = CameraMoveToTarget
         (CameraMoveUp
           (CameraMoveRight
             (CameraMoveForward (CameraYaw scenarioCamera (- 90 * (pi / 180)) False) 0 True)
             0 True)
           0)
         0"
proof -
  have d: "maxAngleDown scenarioCamera \<le> 0" and u: "0 \<le> maxAngleUp scenarioCamera"
    using pi_ge_two by (simp_all add: scenarioCamera_maxAngleUp scenarioCamera_maxAngleDown)
  from rl_UpdateCameraPro_yaw [OF d u, of 90] d u show ?thesis
    by simp
qed

end
